theory Spec2Isabelle
  imports Main "HOL-Library.Word" "HOL-Library.Sublist"
begin

section \<open>JavaScript strings\<close>

text \<open>
  The program is TypeScript (\<^verbatim>\<open>src/services/gemini.ts\<close>). A JavaScript string is a
  sequence of 16-bit code units, and \<^verbatim>\<open>trim\<close>, \<^verbatim>\<open>JSON.parse\<close> and
  \<^verbatim>\<open>encodeURIComponent\<close> are defined on code units, so a string is modelled as a
  list of 16-bit words. The literals of the source are ASCII; \<open>js\<close> embeds them.
\<close>

type_synonym code_unit = "16 word"
type_synonym jsstring = "code_unit list"

definition cu :: "char \<Rightarrow> code_unit" where
  "cu c = of_char c"

definition js :: "string \<Rightarrow> jsstring" where
  "js s = map cu s"

text \<open>\<^verbatim>\<open>Array.prototype.join\<close> on an array of strings.\<close>

fun join :: "jsstring \<Rightarrow> jsstring list \<Rightarrow> jsstring" where
  "join sep [] = []"
| "join sep [x] = x"
| "join sep (x # y # ys) = x @ sep @ join sep (y # ys)"

text \<open>
  The text a template literal gives for an array index (a non-negative integer): its
  decimal digits.
\<close>

definition digit_unit :: "nat \<Rightarrow> code_unit" where
  "digit_unit d = of_nat (48 + d)"

fun decimal :: "nat \<Rightarrow> jsstring" where
  "decimal n = (if n < 10 then [digit_unit n] else decimal (n div 10) @ [digit_unit (n mod 10)])"

declare decimal.simps [simp del]

text \<open>
  \<^verbatim>\<open>String.prototype.trim\<close> strips the code units of ECMAScript's WhiteSpace and
  LineTerminator productions from both ends: TAB, VT, FF, SP, NBSP, ZWNBSP, the Unicode
  space separators, and LF, CR, LS, PS.
\<close>

definition is_white :: "code_unit \<Rightarrow> bool" where
  "is_white c \<longleftrightarrow>
     c = 0x0009 \<or> c = 0x000B \<or> c = 0x000C \<or> c = 0x0020 \<or> c = 0x00A0 \<or> c = 0xFEFF
   \<or> c = 0x1680 \<or> (0x2000 \<le> c \<and> c \<le> 0x200A) \<or> c = 0x202F \<or> c = 0x205F \<or> c = 0x3000
   \<or> c = 0x000A \<or> c = 0x000D \<or> c = 0x2028 \<or> c = 0x2029"

definition trim :: "jsstring \<Rightarrow> jsstring" where
  "trim s = rev (dropWhile is_white (rev (dropWhile is_white s)))"

text \<open>
  \<^verbatim>\<open>String.prototype.split\<close> with a separator of one code unit: the segments between
  the separators, in order; the empty string gives one empty segment.
\<close>

fun split :: "code_unit \<Rightarrow> jsstring \<Rightarrow> jsstring list" where
  "split sep [] = [[]]"
| "split sep (c # cs) =
     (if c = sep then [] # split sep cs
      else (case split sep cs of
              [] \<Rightarrow> [[c]]
            | seg # segs \<Rightarrow> (c # seg) # segs))"

text \<open>
  \<^verbatim>\<open>x || d\<close> on an optional string: \<^verbatim>\<open>undefined\<close> and the empty string are
  falsy and give the default.
\<close>

definition or_default :: "jsstring option \<Rightarrow> jsstring \<Rightarrow> jsstring" where
  "or_default x d = (case x of None \<Rightarrow> d | Some s \<Rightarrow> if s = [] then d else s)"

text \<open>A template literal renders an absent value as the text \<^verbatim>\<open>undefined\<close>.\<close>

definition template_string :: "jsstring option \<Rightarrow> jsstring" where
  "template_string x = (case x of None \<Rightarrow> js ''undefined'' | Some s \<Rightarrow> s)"


section \<open>Constraint blocks of \<^verbatim>\<open>generateRecipes\<close>\<close>

text \<open>
  Modelled from the spec: the members of the string-literal types \<^verbatim>\<open>RecipeMode\<close> and
  \<^verbatim>\<open>RecipeEmotion\<close>, declared in \<^verbatim>\<open>../types\<close>, which is not among the sources.
  At run time a mode or an emotion is a string, and the \<^verbatim>\<open>switch\<close> statements compare
  it with \<^verbatim>\<open>===\<close>.
\<close>

definition RecipeModes :: "jsstring list" where
  "RecipeModes = [js ''STANDARD'', js ''HIGH_PROTEIN'', js ''KETO'', js ''UNDER_500_CAL'']"

definition RecipeEmotions :: "jsstring list" where
  "RecipeEmotions =
     [js ''COMFORT'', js ''LIGHT'', js ''ENERGIZED'', js ''COZY'', js ''LAZY'', js ''IMPRESS'']"

text \<open>
  \<^verbatim>\<open>mode: RecipeMode = 'STANDARD'\<close> and \<^verbatim>\<open>emotion: RecipeEmotion = 'COMFORT'\<close>:
  a parameter the caller leaves out (\<^verbatim>\<open>undefined\<close>) takes its default before the
  \<^verbatim>\<open>switch\<close> reads it.
\<close>

definition default_parameter :: "jsstring option \<Rightarrow> jsstring \<Rightarrow> jsstring" where
  "default_parameter x d = (case x of None \<Rightarrow> d | Some s \<Rightarrow> s)"

definition modeConstraint :: "jsstring \<Rightarrow> jsstring" where
  "modeConstraint mode =
     (if mode = js ''HIGH_PROTEIN'' then
        js ''CRITICAL: Every recipe must be high in protein (focus on meat, eggs, beans, or dairy provided).''
      else if mode = js ''KETO'' then
        js ''CRITICAL: Every recipe must be Ketogenic (high fat, low carb). Avoid sugars and high-starch items.''
      else if mode = js ''UNDER_500_CAL'' then
        js ''CRITICAL: Every recipe must be under 500 calories per serving.''
      else
        js ''Provide balanced and delicious recipes.'')"

definition emotionConstraint :: "jsstring \<Rightarrow> jsstring" where
  "emotionConstraint emotion =
     (if emotion = js ''COMFORT'' then
        js ''STYLE: Soul-warming, familiar, and hearty. Focus on textures that feel like a hug.''
      else if emotion = js ''LIGHT'' then
        js ''STYLE: Crisp, vibrant, and clean. Focus on fresh flavors, citrus, and raw or lightly cooked elements.''
      else if emotion = js ''ENERGIZED'' then
        js ''STYLE: Power-packed and balanced. Focus on high-nutrient density to provide lasting energy.''
      else if emotion = js ''COZY'' then
        js ''STYLE: Slow-cooked vibes, warm spices (cinnamon, cumin, etc.), and soothing warmth.''
      else if emotion = js ''LAZY'' then
        js ''STYLE: Minimum effort, maximum flavor. One-pot or 5-minute prep style. Very few steps.''
      else if emotion = js ''IMPRESS'' then
        js ''STYLE: Sophisticated and gourmet. Focus on elegant presentation and unique flavor pairings to wow a guest.''
      else [])"

text \<open>
  Modelled from the spec: the shape of \<^verbatim>\<open>TasteProfile\<close> (declared in \<^verbatim>\<open>../types\<close>),
  with the field names \<^verbatim>\<open>generateRecipes\<close> reads and the field types of the spec's
  data model.
\<close>

record Preferences =
  spiceLevel :: jsstring
  texture :: "jsstring list"
  flavorBias :: "jsstring list"

record TasteProfile =
  lovedRecipes :: "jsstring list"
  dislikedRecipes :: "jsstring list"
  preferences :: Preferences

definition tasteContext :: "TasteProfile option \<Rightarrow> jsstring" where
  "tasteContext tasteProfile =
     (case tasteProfile of
        None \<Rightarrow> []
      | Some p \<Rightarrow>
          js ''\<newline>  USER PERSONAL PALATE (Taste Memory):\<newline>  - Loved flavor patterns: ''
          @ join (js '', '') (lovedRecipes p)
          @ js ''\<newline>  - Avoided patterns: ''
          @ join (js '', '') (dislikedRecipes p)
          @ js ''\<newline>  - Preferred Spice: ''
          @ spiceLevel (preferences p)
          @ js ''\<newline>  - Preferred Textures: ''
          @ join (js '', '') (texture (preferences p))
          @ js ''\<newline>  - Flavor bias: ''
          @ join (js '', '') (flavorBias (preferences p))
          @ js ''\<newline>  \<newline>  ADJUSTMENT: Prioritize these preferences in the 3 generated options. If the user loves a specific style, reflect that in the \"Chef's Choice\" option.\<newline>  '')"


section \<open>The generation service\<close>

text \<open>
  The service (\<^verbatim>\<open>@google/genai\<close>) is outside the program. Each function awaits one
  call of \<^verbatim>\<open>generateContent\<close>; the model starts at what the \<^verbatim>\<open>await\<close> yields:
  \<open>Inl\<close> an error when the call rejects, which the \<^verbatim>\<open>async\<close> function passes on
  unchanged, \<open>Inr\<close> a response otherwise. The response carries an optional text and
  optional candidates, whose optional content holds optional parts, each with an
  optional text and optional inline data.
\<close>

datatype error = RequestRejected | SyntaxError | TypeError | URIError

record Blob =
  data :: "jsstring option"
  mimeType :: "jsstring option"

record Part =
  part_text :: "jsstring option"
  inlineData :: "Blob option"

record Content =
  parts :: "Part list option"

record Candidate =
  content :: "Content option"

record GenerateContentResponse =
  response_text :: "jsstring option"
  candidates :: "Candidate list option"


section \<open>\<^verbatim>\<open>detectIngredientsFromImage\<close>\<close>

definition detectIngredientsFromImage ::
  "error + GenerateContentResponse \<Rightarrow> error + jsstring list" where
  "detectIngredientsFromImage awaited =
     (case awaited of
        Inl e \<Rightarrow> Inl e
      | Inr response \<Rightarrow>
          (let text = or_default (response_text response) []
           in Inr (filter (\<lambda>i. length i > 0) (map trim (split (cu CHR '','') text)))))"

section \<open>\<^verbatim>\<open>JSON.parse\<close>\<close>

text \<open>
  \<^verbatim>\<open>JSON.parse\<close> is a built-in of the platform; it is modelled after the JSON grammar
  of ECMA-262 and ECMA-404. A number keeps its lexeme: no operation of the program
  inspects its numeric value. An object is the list of its properties in the order the
  engine enumerates them (array-index keys in ascending order first, then the other keys
  in the order of their creation).
\<close>

datatype json =
    JNull
  | JBool bool
  | JNumber jsstring
  | JString jsstring
  | JArray "json list"
  | JObject "(jsstring \<times> json) list"

subsection \<open>Tokens\<close>

datatype token =
    LBrace | RBrace | LBracket | RBracket | Comma | Colon
  | TNull | TTrue | TFalse | TNumber jsstring | TString jsstring

definition is_json_white :: "code_unit \<Rightarrow> bool" where
  "is_json_white c \<longleftrightarrow> c = 0x09 \<or> c = 0x0A \<or> c = 0x0D \<or> c = 0x20"

definition is_digit :: "code_unit \<Rightarrow> bool" where
  "is_digit c \<longleftrightarrow> cu CHR ''0'' \<le> c \<and> c \<le> cu CHR ''9''"

definition hex_value :: "code_unit \<Rightarrow> nat option" where
  "hex_value c =
     (if is_digit c then Some (unat c - 48)
      else if cu CHR ''a'' \<le> c \<and> c \<le> cu CHR ''f'' then Some (unat c - 87)
      else if cu CHR ''A'' \<le> c \<and> c \<le> cu CHR ''F'' then Some (unat c - 55)
      else None)"

definition hex4 :: "code_unit \<Rightarrow> code_unit \<Rightarrow> code_unit \<Rightarrow> code_unit \<Rightarrow> code_unit option" where
  "hex4 h1 h2 h3 h4 =
     (case (hex_value h1, hex_value h2, hex_value h3, hex_value h4) of
        (Some a, Some b, Some c, Some d) \<Rightarrow> Some (of_nat (((a * 16 + b) * 16 + c) * 16 + d))
      | _ \<Rightarrow> None)"

definition unescape :: "code_unit \<Rightarrow> code_unit option" where
  "unescape e =
     (if e = 0x22 then Some 0x22
      else if e = 0x5C then Some 0x5C
      else if e = cu CHR ''/'' then Some (cu CHR ''/'')
      else if e = cu CHR ''b'' then Some 0x08
      else if e = cu CHR ''f'' then Some 0x0C
      else if e = cu CHR ''n'' then Some 0x0A
      else if e = cu CHR ''r'' then Some 0x0D
      else if e = cu CHR ''t'' then Some 0x09
      else None)"

text \<open>
  The scanners work on the text behind the current position and return, beside the value,
  how many code units they consumed. \<open>scan_string\<close> starts behind the opening quote.
\<close>

fun scan_string :: "jsstring \<Rightarrow> (jsstring \<times> nat) option" where
  "scan_string [] = None"
| "scan_string (c # cs) =
     (if c = 0x22 then Some ([], 1)
      else if c = 0x5C then
        (case cs of
           [] \<Rightarrow> None
         | e # es \<Rightarrow>
             if e = cu CHR ''u'' then
               (case es of
                  h1 # h2 # h3 # h4 # rest \<Rightarrow>
                    (case hex4 h1 h2 h3 h4 of
                       None \<Rightarrow> None
                     | Some u \<Rightarrow>
                         (case scan_string rest of
                            None \<Rightarrow> None
                          | Some (s, n) \<Rightarrow> Some (u # s, n + 6)))
                | _ \<Rightarrow> None)
             else
               (case unescape e of
                  None \<Rightarrow> None
                | Some u \<Rightarrow>
                    (case scan_string es of
                       None \<Rightarrow> None
                     | Some (s, n) \<Rightarrow> Some (u # s, n + 2))))
      else if c < 0x20 then None
      else
        (case scan_string cs of
           None \<Rightarrow> None
         | Some (s, n) \<Rightarrow> Some (c # s, n + 1)))"

definition digits_len :: "jsstring \<Rightarrow> nat" where
  "digits_len cs = length (takeWhile is_digit cs)"

definition scan_int :: "jsstring \<Rightarrow> nat option" where
  "scan_int cs =
     (case cs of
        [] \<Rightarrow> None
      | c # _ \<Rightarrow>
          if c = cu CHR ''0'' then Some 1
          else if is_digit c then Some (digits_len cs)
          else None)"

definition scan_frac :: "jsstring \<Rightarrow> nat option" where
  "scan_frac cs =
     (case cs of
        [] \<Rightarrow> Some 0
      | c # ds \<Rightarrow>
          if c = cu CHR ''.'' then
            (if digits_len ds = 0 then None else Some (1 + digits_len ds))
          else Some 0)"

definition scan_exp :: "jsstring \<Rightarrow> nat option" where
  "scan_exp cs =
     (case cs of
        [] \<Rightarrow> Some 0
      | c # ds \<Rightarrow>
          if c = cu CHR ''e'' \<or> c = cu CHR ''E'' then
            (let sign = (case ds of
                           [] \<Rightarrow> 0
                         | s # _ \<Rightarrow> if s = cu CHR ''+'' \<or> s = cu CHR ''-'' then 1 else 0);
                 n = digits_len (drop sign ds)
             in if n = 0 then None else Some (1 + sign + n))
          else Some 0)"

definition scan_number :: "jsstring \<Rightarrow> nat option" where
  "scan_number cs =
     (let m = (case cs of [] \<Rightarrow> 0 | c # _ \<Rightarrow> if c = cu CHR ''-'' then 1 else 0)
      in case scan_int (drop m cs) of
           None \<Rightarrow> None
         | Some i \<Rightarrow>
             (case scan_frac (drop (m + i) cs) of
                None \<Rightarrow> None
              | Some f \<Rightarrow>
                  (case scan_exp (drop (m + i + f) cs) of
                     None \<Rightarrow> None
                   | Some e \<Rightarrow> Some (m + i + f + e))))"

fun tokenize :: "jsstring \<Rightarrow> token list option" where
  "tokenize [] = Some []"
| "tokenize (c # cs) =
     (if is_json_white c then tokenize cs
      else if c = cu CHR ''{'' then map_option (Cons LBrace) (tokenize cs)
      else if c = cu CHR ''}'' then map_option (Cons RBrace) (tokenize cs)
      else if c = cu CHR ''['' then map_option (Cons LBracket) (tokenize cs)
      else if c = cu CHR '']'' then map_option (Cons RBracket) (tokenize cs)
      else if c = cu CHR '','' then map_option (Cons Comma) (tokenize cs)
      else if c = cu CHR '':'' then map_option (Cons Colon) (tokenize cs)
      else if c = 0x22 then
        (case scan_string cs of
           None \<Rightarrow> None
         | Some (s, n) \<Rightarrow> map_option (Cons (TString s)) (tokenize (drop n cs)))
      else if c = cu CHR ''-'' \<or> is_digit c then
        (case scan_number (c # cs) of
           None \<Rightarrow> None
         | Some n \<Rightarrow> map_option (Cons (TNumber (take n (c # cs)))) (tokenize (drop (n - 1) cs)))
      else if take 4 (c # cs) = js ''null'' then map_option (Cons TNull) (tokenize (drop 3 cs))
      else if take 4 (c # cs) = js ''true'' then map_option (Cons TTrue) (tokenize (drop 3 cs))
      else if take 5 (c # cs) = js ''false'' then map_option (Cons TFalse) (tokenize (drop 4 cs))
      else None)"

subsection \<open>Objects\<close>

text \<open>
  Defining a property keeps the position of an existing key and replaces its value; a new
  key that is an array index (the canonical decimal text of an integer below \<open>2^32 - 1\<close>)
  goes among the index keys in ascending order, any other new key goes to the end.
\<close>

definition decimal_value :: "jsstring \<Rightarrow> nat" where
  "decimal_value k = foldl (\<lambda>a c. 10 * a + (unat c - 48)) 0 k"

definition array_index :: "jsstring \<Rightarrow> nat option" where
  "array_index k =
     (if k \<noteq> [] \<and> list_all is_digit k \<and> (hd k \<noteq> cu CHR ''0'' \<or> length k = 1)
         \<and> decimal_value k < 2 ^ 32 - 1
      then Some (decimal_value k) else None)"

fun insert_indexed :: "nat \<Rightarrow> jsstring \<Rightarrow> 'a \<Rightarrow> (jsstring \<times> 'a) list \<Rightarrow> (jsstring \<times> 'a) list" where
  "insert_indexed i k v [] = [(k, v)]"
| "insert_indexed i k v ((k', v') # ps) =
     (case array_index k' of
        Some j \<Rightarrow> if j < i then (k', v') # insert_indexed i k v ps else (k, v) # (k', v') # ps
      | None \<Rightarrow> (k, v) # (k', v') # ps)"

definition define_property :: "(jsstring \<times> 'a) list \<Rightarrow> jsstring \<Rightarrow> 'a \<Rightarrow> (jsstring \<times> 'a) list" where
  "define_property ps k v =
     (if k \<in> set (map fst ps) then map (\<lambda>(k', v'). if k' = k then (k', v) else (k', v')) ps
      else (case array_index k of
              Some i \<Rightarrow> insert_indexed i k v ps
            | None \<Rightarrow> ps @ [(k, v)]))"

subsection \<open>The parser\<close>

text \<open>
  A pushdown automaton over the tokens: the stack holds the arrays and objects that are
  still open, \<open>expect\<close> says what may come next. A text is valid when its tokens
  leave exactly one finished value and an empty stack; \<open>None\<close> is the
  \<^verbatim>\<open>SyntaxError\<close> of \<^verbatim>\<open>JSON.parse\<close>.
\<close>

datatype frame =
    ArrayFrame "json list"
  | ObjectFrame "(jsstring \<times> json) list" "jsstring option"

datatype expect = Value | ValueOrEnd | KeyOrEnd | Key | ColonNext | CommaOrEnd | Finished json

fun deliver :: "json \<Rightarrow> frame list \<Rightarrow> (expect \<times> frame list) option" where
  "deliver v [] = Some (Finished v, [])"
| "deliver v (ArrayFrame xs # st) = Some (CommaOrEnd, ArrayFrame (xs @ [v]) # st)"
| "deliver v (ObjectFrame ps (Some k) # st) = Some (CommaOrEnd, ObjectFrame (define_property ps k v) None # st)"
| "deliver v (ObjectFrame ps None # st) = None"

fun value_token :: "token \<Rightarrow> frame list \<Rightarrow> (expect \<times> frame list) option" where
  "value_token LBracket st = Some (ValueOrEnd, ArrayFrame [] # st)"
| "value_token LBrace st = Some (KeyOrEnd, ObjectFrame [] None # st)"
| "value_token TNull st = deliver JNull st"
| "value_token TTrue st = deliver (JBool True) st"
| "value_token TFalse st = deliver (JBool False) st"
| "value_token (TNumber n) st = deliver (JNumber n) st"
| "value_token (TString s) st = deliver (JString s) st"
| "value_token _ st = None"

fun key_token :: "token \<Rightarrow> frame list \<Rightarrow> (expect \<times> frame list) option" where
  "key_token (TString k) (ObjectFrame ps None # st) = Some (ColonNext, ObjectFrame ps (Some k) # st)"
| "key_token _ _ = None"

fun close_token :: "token \<Rightarrow> frame list \<Rightarrow> (expect \<times> frame list) option" where
  "close_token RBracket (ArrayFrame xs # st) = deliver (JArray xs) st"
| "close_token RBrace (ObjectFrame ps None # st) = deliver (JObject ps) st"
| "close_token _ _ = None"

fun step :: "expect \<Rightarrow> frame list \<Rightarrow> token \<Rightarrow> (expect \<times> frame list) option" where
  "step Value st t = value_token t st"
| "step ValueOrEnd st t = (if t = RBracket then close_token t st else value_token t st)"
| "step KeyOrEnd st t = (if t = RBrace then close_token t st else key_token t st)"
| "step Key st t = key_token t st"
| "step ColonNext st t = (if t = Colon then Some (Value, st) else None)"
| "step CommaOrEnd st t =
     (if t = Comma then
        (case st of
           ArrayFrame xs # _ \<Rightarrow> Some (Value, st)
         | ObjectFrame ps None # _ \<Rightarrow> Some (Key, st)
         | _ \<Rightarrow> None)
      else close_token t st)"
| "step (Finished v) st t = None"

fun run :: "expect \<Rightarrow> frame list \<Rightarrow> token list \<Rightarrow> json option" where
  "run (Finished v) [] [] = Some v"
| "run e st [] = None"
| "run e st (t # ts) = (case step e st t of None \<Rightarrow> None | Some (e', st') \<Rightarrow> run e' st' ts)"

definition JSON_parse :: "jsstring \<Rightarrow> json option" where
  "JSON_parse text = (case tokenize text of None \<Rightarrow> None | Some ts \<Rightarrow> run Value [] ts)"


subsection \<open>Well-formed values\<close>

text \<open>
  No object of a value has two properties with one key: the invariant under which
  \<open>map_of\<close> reads the value of a property. It is stated for values, for the open arrays
  and objects on the parser's stack, and for a finished value.
\<close>

fun distinct_keys :: "json \<Rightarrow> bool" where
  "distinct_keys (JObject ps) = (distinct (map fst ps) \<and> (\<forall>p \<in> set ps. distinct_keys (snd p)))"
| "distinct_keys (JArray xs) = (\<forall>x \<in> set xs. distinct_keys x)"
| "distinct_keys _ = True"

fun frame_ok :: "frame \<Rightarrow> bool" where
  "frame_ok (ArrayFrame xs) = (\<forall>x \<in> set xs. distinct_keys x)"
| "frame_ok (ObjectFrame ps k) = (distinct (map fst ps) \<and> (\<forall>p \<in> set ps. distinct_keys (snd p)))"

fun expect_ok :: "expect \<Rightarrow> bool" where
  "expect_ok (Finished v) = distinct_keys v"
| "expect_ok _ = True"


section \<open>\<^verbatim>\<open>generateRecipes\<close>\<close>

text \<open>
  The spread \<^verbatim>\<open>{ ...r }\<close> copies the own enumerable properties of \<open>r\<close>: those of an
  object, the elements of an array and the code units of a string under their indices,
  none for a number, a boolean or \<^verbatim>\<open>null\<close>.
\<close>

fun own_enumerable :: "json \<Rightarrow> (jsstring \<times> json) list" where
  "own_enumerable (JObject ps) = ps"
| "own_enumerable (JArray xs) = map (\<lambda>(i, x). (decimal i, x)) (enumerate 0 xs)"
| "own_enumerable (JString s) = map (\<lambda>(i, c). (decimal i, JString [c])) (enumerate 0 s)"
| "own_enumerable _ = []"

definition with_id :: "nat \<Rightarrow> json \<Rightarrow> json" where
  "with_id idx r =
     JObject (define_property (own_enumerable r) (js ''id'') (JString (js ''recipe-'' @ decimal idx)))"

text \<open>
  \<^verbatim>\<open>recipes.map\<close> exists only when the parsed value is an array; on any other value
  the call raises a \<^verbatim>\<open>TypeError\<close>.
\<close>

definition generateRecipes :: "error + GenerateContentResponse \<Rightarrow> error + json list" where
  "generateRecipes awaited =
     (case awaited of
        Inl e \<Rightarrow> Inl e
      | Inr response \<Rightarrow>
          (case JSON_parse (or_default (response_text response) (js ''[]'')) of
             None \<Rightarrow> Inl SyntaxError
           | Some (JArray recipes) \<Rightarrow> Inr (map (\<lambda>(idx, r). with_id idx r) (enumerate 0 recipes))
           | Some _ \<Rightarrow> Inl TypeError))"


section \<open>\<^verbatim>\<open>generateRecipeImage\<close>\<close>

text \<open>
  \<^verbatim>\<open>encodeURIComponent\<close> keeps the unreserved code units (letters, digits and
  \<^verbatim>\<open>-_.!~*'()\<close>) and writes every other code point as the percent-escaped octets
  of its UTF-8 encoding; a surrogate without its partner raises a \<^verbatim>\<open>URIError\<close>.
\<close>

definition is_unreserved :: "code_unit \<Rightarrow> bool" where
  "is_unreserved c \<longleftrightarrow>
     (cu CHR ''A'' \<le> c \<and> c \<le> cu CHR ''Z'') \<or> (cu CHR ''a'' \<le> c \<and> c \<le> cu CHR ''z'')
   \<or> is_digit c
   \<or> c = cu CHR ''-'' \<or> c = cu CHR ''_'' \<or> c = cu CHR ''.'' \<or> c = cu CHR ''!''
   \<or> c = cu CHR ''~'' \<or> c = cu CHR ''*'' \<or> c = 0x27 \<or> c = cu CHR ''('' \<or> c = cu CHR '')''"

definition is_lead :: "code_unit \<Rightarrow> bool" where
  "is_lead c \<longleftrightarrow> 0xD800 \<le> c \<and> c \<le> 0xDBFF"

definition is_trail :: "code_unit \<Rightarrow> bool" where
  "is_trail c \<longleftrightarrow> 0xDC00 \<le> c \<and> c \<le> 0xDFFF"

definition code_point :: "code_unit \<Rightarrow> code_unit \<Rightarrow> nat" where
  "code_point lead trail = (unat lead - 0xD800) * 0x400 + (unat trail - 0xDC00) + 0x10000"

definition utf8 :: "nat \<Rightarrow> nat list" where
  "utf8 cp =
     (if cp < 0x80 then [cp]
      else if cp < 0x800 then [0xC0 + cp div 0x40, 0x80 + cp mod 0x40]
      else if cp < 0x10000 then
        [0xE0 + cp div 0x1000, 0x80 + cp div 0x40 mod 0x40, 0x80 + cp mod 0x40]
      else
        [0xF0 + cp div 0x40000, 0x80 + cp div 0x1000 mod 0x40, 0x80 + cp div 0x40 mod 0x40,
         0x80 + cp mod 0x40])"

definition hex_digit :: "nat \<Rightarrow> code_unit" where
  "hex_digit d = (if d < 10 then of_nat (48 + d) else of_nat (55 + d))"

definition percent :: "nat \<Rightarrow> jsstring" where
  "percent octet = [cu CHR ''%'', hex_digit (octet div 16), hex_digit (octet mod 16)]"

definition escape :: "nat \<Rightarrow> jsstring" where
  "escape cp = concat (map percent (utf8 cp))"

fun encodeURIComponent :: "jsstring \<Rightarrow> error + jsstring" where
  "encodeURIComponent [] = Inr []"
| "encodeURIComponent (c # cs) =
     (if is_unreserved c then
        (case encodeURIComponent cs of Inl e \<Rightarrow> Inl e | Inr r \<Rightarrow> Inr (c # r))
      else if is_trail c then Inl URIError
      else if is_lead c then
        (case cs of
           [] \<Rightarrow> Inl URIError
         | d # ds \<Rightarrow>
             if is_trail d then
               (case encodeURIComponent ds of
                  Inl e \<Rightarrow> Inl e
                | Inr r \<Rightarrow> Inr (escape (code_point c d) @ r))
             else Inl URIError)
      else
        (case encodeURIComponent cs of
           Inl e \<Rightarrow> Inl e
         | Inr r \<Rightarrow> Inr (escape (unat c) @ r)))"

text \<open>
  The strings \<^verbatim>\<open>encodeURIComponent\<close> accepts are those
  \<^verbatim>\<open>String.prototype.isWellFormed\<close> holds of: every leading surrogate is followed by
  a trailing one, and no trailing surrogate stands alone.
\<close>

fun well_formed :: "jsstring \<Rightarrow> bool" where
  "well_formed [] = True"
| "well_formed (c # cs) =
     (if is_trail c then False
      else if is_lead c then (case cs of [] \<Rightarrow> False | d # ds \<Rightarrow> is_trail d \<and> well_formed ds)
      else well_formed cs)"

text \<open>
  \<^verbatim>\<open>response.candidates?.[0]?.content?.parts || []\<close>: the parts of the first
  candidate, and no parts when a link of the chain is absent.
\<close>

definition first_parts :: "GenerateContentResponse \<Rightarrow> Part list" where
  "first_parts response =
     (case candidates response of
        None \<Rightarrow> []
      | Some [] \<Rightarrow> []
      | Some (candidate # _) \<Rightarrow>
          (case content candidate of
             None \<Rightarrow> []
           | Some c \<Rightarrow> (case parts c of None \<Rightarrow> [] | Some ps \<Rightarrow> ps)))"

text \<open>The \<^verbatim>\<open>for\<close> loop: the first part with inline data ends it.\<close>

fun scan_parts :: "Part list \<Rightarrow> jsstring option" where
  "scan_parts [] = None"
| "scan_parts (part # rest) =
     (case inlineData part of
        Some blob \<Rightarrow> Some (js ''data:image/png;base64,'' @ template_string (data blob))
      | None \<Rightarrow> scan_parts rest)"

definition generateRecipeImage ::
  "jsstring \<Rightarrow> error + GenerateContentResponse \<Rightarrow> error + jsstring" where
  "generateRecipeImage recipeTitle awaited =
     (case awaited of
        Inl e \<Rightarrow> Inl e
      | Inr response \<Rightarrow>
          (case scan_parts (first_parts response) of
             Some uri \<Rightarrow> Inr uri
           | None \<Rightarrow>
               (case encodeURIComponent recipeTitle of
                  Inl e \<Rightarrow> Inl e
                | Inr seed \<Rightarrow> Inr (js ''https://picsum.photos/seed/'' @ seed @ js ''/600/600''))))"


section \<open>Example inputs\<close>

text \<open>Concrete inputs at which the results below are evaluated.\<close>

definition palate :: TasteProfile where
  "palate =
     \<lparr>lovedRecipes = [js ''smoky'', js ''umami''],
      dislikedRecipes = [js ''bitter''],
      preferences =
        \<lparr>spiceLevel = js ''medium'', texture = [js ''crispy''],
         flavorBias = [js ''savory'', js ''sour'']\<rparr>\<rparr>"

definition fridge_response :: GenerateContentResponse where
  "fridge_response = \<lparr>response_text = Some (js ''  eggs , milk,, \<newline> ''), candidates = None\<rparr>"

definition silent_response :: GenerateContentResponse where
  "silent_response = \<lparr>response_text = Some [], candidates = None\<rparr>"

definition truncated_response :: GenerateContentResponse where
  "truncated_response =
     \<lparr>response_text = Some (js ''[{\"title\":\"Soup\",\"calories\":120},{\"title\":\"Sal''),
      candidates = None\<rparr>"

definition menu_response :: GenerateContentResponse where
  "menu_response =
     \<lparr>response_text = Some (js ''[{\"title\":\"Soup\",\"calories\":120}, {\"title\":\"Salad\"}, {\"id\":\"x\",\"title\":\"Stew\"}]''),
      candidates = None\<rparr>"

definition menu :: "json list" where
  "menu =
     [JObject [(js ''title'', JString (js ''Soup'')), (js ''calories'', JNumber (js ''120''))],
      JObject [(js ''title'', JString (js ''Salad''))],
      JObject [(js ''id'', JString (js ''x'')), (js ''title'', JString (js ''Stew''))]]"

definition number_response :: GenerateContentResponse where
  "number_response = \<lparr>response_text = Some (js ''[5]''), candidates = None\<rparr>"

definition null_response :: GenerateContentResponse where
  "null_response = \<lparr>response_text = Some (js ''[null]''), candidates = None\<rparr>"

definition mixed_response :: GenerateContentResponse where
  "mixed_response =
     \<lparr>response_text = Some (js ''[{\"title\":\"Soup\"}, \"ab\", [true, null], false]''),
      candidates = None\<rparr>"

definition mixed :: "json list" where
  "mixed =
     [JObject [(js ''title'', JString (js ''Soup''))],
      JString (js ''ab''),
      JArray [JBool True, JNull],
      JBool False]"

definition no_image_response :: GenerateContentResponse where
  "no_image_response =
     \<lparr>response_text = Some (js ''Sorry, no image.''),
      candidates = Some [\<lparr>content = Some \<lparr>parts = Some [\<lparr>part_text = Some (js ''Sorry, no image.''), inlineData = None\<rparr>]\<rparr>\<rparr>]\<rparr>"

definition image_response :: GenerateContentResponse where
  "image_response =
     \<lparr>response_text = None,
      candidates = Some [\<lparr>content = Some \<lparr>parts = Some
        [\<lparr>part_text = Some (js ''Here it is''), inlineData = None\<rparr>,
         \<lparr>part_text = None, inlineData = Some \<lparr>data = Some (js ''QUJD''), mimeType = Some (js ''image/png'')\<rparr>\<rparr>,
         \<lparr>part_text = None, inlineData = Some \<lparr>data = Some (js ''REVG''), mimeType = Some (js ''image/png'')\<rparr>\<rparr>]\<rparr>\<rparr>]\<rparr>"

definition second_candidate_response :: GenerateContentResponse where
  "second_candidate_response =
     \<lparr>response_text = None,
      candidates = Some
        [\<lparr>content = Some \<lparr>parts = Some [\<lparr>part_text = Some (js ''Here it is''), inlineData = None\<rparr>]\<rparr>\<rparr>,
         \<lparr>content = Some \<lparr>parts = Some
            [\<lparr>part_text = None, inlineData = Some \<lparr>data = Some (js ''QUJD''), mimeType = Some (js ''image/png'')\<rparr>\<rparr>]\<rparr>\<rparr>]\<rparr>"


section \<open>Facts about strings\<close>

lemma unat_cu: "unat (cu c) = of_char c"
  unfolding cu_def by (cases c) simp

lemma cu_eq_iff [simp]: "cu c = cu d \<longleftrightarrow> c = d"
proof
  assume "cu c = cu d"
  then have "unat (cu c) = unat (cu d)" by simp
  then have "(of_char c :: nat) = of_char d" by (simp only: unat_cu)
  then show "c = d" by simp
qed simp

lemma js_eq_iff [simp]: "js a = js b \<longleftrightarrow> a = b"
  unfolding js_def by (simp add: inj_map_eq_map inj_on_def)

lemma js_Nil_iff [simp]: "js a = [] \<longleftrightarrow> a = []" "[] = js a \<longleftrightarrow> a = []"
  unfolding js_def by auto


lemma js_append: "js a @ js b = js (a @ b)"
  by (simp add: js_def)


section \<open>The constraint blocks\<close>

text \<open>
  C7. Each of the four dietary modes STANDARD, HIGH_PROTEIN, KETO and UNDER_500_CAL gets
  a non-empty constraint sentence, the four sentences are pairwise distinct, and every
  value outside the enumeration gets the neutral sentence
  \<^verbatim>\<open>Provide balanced and delicious recipes.\<close>
\<close>

theorem modeConstraint_per_mode:
  "(\<forall>mode \<in> set RecipeModes. modeConstraint mode \<noteq> [])
   \<and> distinct (map modeConstraint RecipeModes)
   \<and> (\<forall>mode. mode \<notin> set RecipeModes \<longrightarrow>
         modeConstraint mode = js ''Provide balanced and delicious recipes.'')"
  by (simp add: RecipeModes_def modeConstraint_def)

theorem modeConstraint_per_mode_witness:
  "js ''KETO'' \<in> set RecipeModes \<and> modeConstraint (js ''KETO'') \<noteq> []
   \<and> js ''VEGAN'' \<notin> set RecipeModes
   \<and> modeConstraint (js ''VEGAN'') = js ''Provide balanced and delicious recipes.''"
proof -
  have known: "js ''KETO'' \<in> set RecipeModes" by (simp add: RecipeModes_def)
  have unknown: "js ''VEGAN'' \<notin> set RecipeModes" by (simp add: RecipeModes_def)
  from modeConstraint_per_mode known have "modeConstraint (js ''KETO'') \<noteq> []" by blast
  moreover from modeConstraint_per_mode unknown
  have "modeConstraint (js ''VEGAN'') = js ''Provide balanced and delicious recipes.''" by blast
  ultimately show ?thesis using known unknown by simp
qed

text \<open>
  C8. Each of the six emotional styles COMFORT, LIGHT, ENERGIZED, COZY, LAZY and IMPRESS
  gets a non-empty style sentence, the six sentences are pairwise distinct, and every
  value outside the enumeration gets the empty string: no branch of the
  \<^verbatim>\<open>switch\<close> is taken and the constraint is dropped without an error.
\<close>

theorem emotionConstraint_per_emotion:
  "(\<forall>emotion \<in> set RecipeEmotions. emotionConstraint emotion \<noteq> [])
   \<and> distinct (map emotionConstraint RecipeEmotions)
   \<and> (\<forall>emotion. emotion \<notin> set RecipeEmotions \<longrightarrow> emotionConstraint emotion = [])"
  by (simp add: RecipeEmotions_def emotionConstraint_def)

theorem emotionConstraint_per_emotion_witness:
  "js ''COZY'' \<in> set RecipeEmotions \<and> emotionConstraint (js ''COZY'') \<noteq> []
   \<and> js ''ANGRY'' \<notin> set RecipeEmotions \<and> emotionConstraint (js ''ANGRY'') = []"
proof -
  have known: "js ''COZY'' \<in> set RecipeEmotions" by (simp add: RecipeEmotions_def)
  have unknown: "js ''ANGRY'' \<notin> set RecipeEmotions" by (simp add: RecipeEmotions_def)
  from emotionConstraint_per_emotion known have "emotionConstraint (js ''COZY'') \<noteq> []" by blast
  moreover from emotionConstraint_per_emotion unknown
  have "emotionConstraint (js ''ANGRY'') = []" by blast
  ultimately show ?thesis using known unknown by simp
qed

text \<open>A mode or an emotion the caller leaves out is a member of its enumeration.\<close>

lemma default_parameter_constraints:
  "modeConstraint (default_parameter None (js ''STANDARD''))
     = js ''Provide balanced and delicious recipes.''"
  "emotionConstraint (default_parameter None (js ''COMFORT''))
     = js ''STYLE: Soul-warming, familiar, and hearty. Focus on textures that feel like a hug.''"
  by (simp_all add: default_parameter_def modeConstraint_def emotionConstraint_def)

text \<open>Every element of an array is a substring of the joined array.\<close>

lemma sublist_between: "sublist x ys \<Longrightarrow> sublist x (ps @ ys @ ss)"
proof -
  assume "sublist x ys"
  then obtain a b where "ys = a @ x @ b" by (auto simp: sublist_def)
  then have "ps @ ys @ ss = (ps @ a) @ x @ (b @ ss)" by simp
  then show ?thesis unfolding sublist_def by blast
qed

lemma sublist_behind: "sublist x ys \<Longrightarrow> sublist x (ps @ ys)"
  using sublist_between [of x ys ps "[]"] by simp

lemma sublist_join: "x \<in> set xs \<Longrightarrow> sublist x (join sep xs)"
proof (induction sep xs rule: join.induct)
  case (1 sep)
  then show ?case by simp
next
  case (2 sep y)
  then show ?case by simp
next
  case (3 sep y z zs)
  show ?case
  proof (cases "x = y")
    case True
    then show ?thesis by simp
  next
    case False
    with "3.prems" have "x \<in> set (z # zs)" by simp
    then have "sublist x (join sep (z # zs))" by (rule "3.IH")
    then have "sublist x ((y @ sep) @ join sep (z # zs) @ [])" by (rule sublist_between)
    then show ?thesis by simp
  qed
qed

text \<open>
  C9. For an absent profile the personalization block is the empty string; for every
  profile that is present it contains each entry of the loved patterns and each entry of
  the disliked patterns verbatim, as a contiguous substring.
\<close>

theorem tasteContext_entries:
  "tasteContext None = []
   \<and> (\<forall>p :: TasteProfile. \<forall>entry \<in> set (lovedRecipes p) \<union> set (dislikedRecipes p).
         sublist entry (tasteContext (Some p)))"
proof (intro conjI allI ballI)
  show "tasteContext None = []" by (simp add: tasteContext_def)
next
  fix p :: TasteProfile and entry
  assume "entry \<in> set (lovedRecipes p) \<union> set (dislikedRecipes p)"
  then consider "entry \<in> set (lovedRecipes p)" | "entry \<in> set (dislikedRecipes p)" by blast
  then show "sublist entry (tasteContext (Some p))"
  proof cases
    case 1
    then have "sublist entry (join (js '', '') (lovedRecipes p))" by (rule sublist_join)
    then show ?thesis
      unfolding tasteContext_def option.case by (rule sublist_between)
  next
    case 2
    then have avoided: "sublist entry (join (js '', '') (dislikedRecipes p))"
      by (rule sublist_join)
    show ?thesis
      unfolding tasteContext_def option.case
      by (rule sublist_behind, rule sublist_behind, rule sublist_between) (fact avoided)
  qed
qed

text \<open>The block rendered for a concrete profile.\<close>

lemma tasteContext_palate:
  "tasteContext (Some palate) = js ''\<newline>  USER PERSONAL PALATE (Taste Memory):\<newline>  - Loved flavor patterns: smoky, umami\<newline>  - Avoided patterns: bitter\<newline>  - Preferred Spice: medium\<newline>  - Preferred Textures: crispy\<newline>  - Flavor bias: savory, sour\<newline>  \<newline>  ADJUSTMENT: Prioritize these preferences in the 3 generated options. If the user loves a specific style, reflect that in the \"Chef's Choice\" option.\<newline>  ''"
  by (simp add: tasteContext_def palate_def js_def)

theorem tasteContext_entries_witness:
  "js ''umami'' \<in> set (lovedRecipes palate) \<union> set (dislikedRecipes palate)
   \<and> sublist (js ''umami'') (tasteContext (Some palate))
   \<and> js ''bitter'' \<in> set (lovedRecipes palate) \<union> set (dislikedRecipes palate)
   \<and> sublist (js ''bitter'') (tasteContext (Some palate))"
proof -
  have loved: "js ''umami'' \<in> set (lovedRecipes palate) \<union> set (dislikedRecipes palate)"
    by (simp add: palate_def)
  have disliked: "js ''bitter'' \<in> set (lovedRecipes palate) \<union> set (dislikedRecipes palate)"
    by (simp add: palate_def)
  from tasteContext_entries loved have "sublist (js ''umami'') (tasteContext (Some palate))"
    by blast
  moreover from tasteContext_entries disliked
  have "sublist (js ''bitter'') (tasteContext (Some palate))" by blast
  ultimately show ?thesis using loved disliked by simp
qed


section \<open>The ingredient extractor\<close>

lemma hd_trim: "trim s \<noteq> [] \<Longrightarrow> \<not> is_white (hd (trim s))"
proof -
  assume nonempty: "trim s \<noteq> []"
  let ?t = "dropWhile is_white (rev (dropWhile is_white s))"
  from nonempty have t: "?t \<noteq> []" by (simp add: trim_def)
  then have "last ?t = last (rev (dropWhile is_white s))"
    by (metis last_appendR takeWhile_dropWhile_id)
  also have "\<dots> = hd (dropWhile is_white s)"
    using t by (metis dropWhile.simps(1) last_rev rev_is_Nil_conv)
  finally have "hd (trim s) = hd (dropWhile is_white s)"
    using t by (simp add: trim_def hd_rev)
  moreover have "dropWhile is_white s \<noteq> []"
  proof
    assume "dropWhile is_white s = []"
    with t show False by simp
  qed
  ultimately show ?thesis by (simp add: hd_dropWhile)
qed

lemma last_trim: "trim s \<noteq> [] \<Longrightarrow> \<not> is_white (last (trim s))"
proof -
  assume nonempty: "trim s \<noteq> []"
  let ?t = "dropWhile is_white (rev (dropWhile is_white s))"
  from nonempty have t: "?t \<noteq> []" by (simp add: trim_def)
  then have "\<not> is_white (hd ?t)" by (rule hd_dropWhile)
  with t show ?thesis by (simp add: trim_def last_rev)
qed

lemma not_all_white: "s \<noteq> [] \<Longrightarrow> \<not> is_white (hd s) \<Longrightarrow> \<not> list_all is_white s"
  by (cases s) simp_all

lemma is_white_space: "is_white 0x20"
  by (simp add: is_white_def)

text \<open>
  C5. Whatever text the service returns, the extractor's list is the text split on commas,
  each segment trimmed, the empty segments dropped; so no element is empty or consists of
  white space only, and no element begins or ends with a space (or any other white space
  character).
\<close>

theorem detectIngredientsFromImage_clean:
  "\<exists>ingredients.
     detectIngredientsFromImage (Inr response) = Inr ingredients
   \<and> ingredients =
       filter (\<lambda>i. i \<noteq> []) (map trim (split (cu CHR '','') (or_default (response_text response) [])))
   \<and> (\<forall>i \<in> set ingredients.
         i \<noteq> [] \<and> \<not> list_all is_white i
       \<and> \<not> is_white (hd i) \<and> \<not> is_white (last i) \<and> hd i \<noteq> 0x20 \<and> last i \<noteq> 0x20)"
proof -
  let ?segments = "map trim (split (cu CHR '','') (or_default (response_text response) []))"
  let ?ingredients = "filter (\<lambda>i. i \<noteq> []) ?segments"
  have result: "detectIngredientsFromImage (Inr response) = Inr ?ingredients"
    by (simp add: detectIngredientsFromImage_def)
  have tidy: "i \<noteq> [] \<and> \<not> list_all is_white i
       \<and> \<not> is_white (hd i) \<and> \<not> is_white (last i) \<and> hd i \<noteq> 0x20 \<and> last i \<noteq> 0x20"
    if "i \<in> set ?ingredients" for i
  proof -
    from that obtain s where i: "i = trim s" and nonempty: "i \<noteq> []" by auto
    from nonempty have leading: "\<not> is_white (hd i)" and trailing: "\<not> is_white (last i)"
      unfolding i by (rule hd_trim, rule last_trim)
    from leading trailing is_white_space have "hd i \<noteq> 0x20" and "last i \<noteq> 0x20" by auto
    with nonempty leading trailing show ?thesis by (simp add: not_all_white)
  qed
  from result tidy show ?thesis by blast
qed

lemma detectIngredientsFromImage_fridge:
  "detectIngredientsFromImage (Inr fridge_response) = Inr [js ''eggs'', js ''milk'']"
  by (simp add: detectIngredientsFromImage_def fridge_response_def or_default_def
      js_def cu_def trim_def is_white_def)

theorem detectIngredientsFromImage_clean_witness:
  "detectIngredientsFromImage (Inr fridge_response) = Inr [js ''eggs'', js ''milk'']
   \<and> js ''milk'' \<in> set [js ''eggs'', js ''milk'']
   \<and> \<not> list_all is_white (js ''milk'')
   \<and> \<not> is_white (hd (js ''milk'')) \<and> \<not> is_white (last (js ''milk''))"
proof -
  from detectIngredientsFromImage_clean [of fridge_response]
  obtain ingredients where
    result: "detectIngredientsFromImage (Inr fridge_response) = Inr ingredients" and
    clean: "\<forall>i \<in> set ingredients. i \<noteq> [] \<and> \<not> list_all is_white i
       \<and> \<not> is_white (hd i) \<and> \<not> is_white (last i) \<and> hd i \<noteq> 0x20 \<and> last i \<noteq> 0x20"
    by blast
  from result have "ingredients = [js ''eggs'', js ''milk'']"
    by (simp add: detectIngredientsFromImage_fridge)
  with clean result show ?thesis by simp
qed

text \<open>
  C6 as stated asks for an error when the service completes with an empty text. The
  extractor instead defaults the text to the empty string (\<^verbatim>\<open>response.text || ""\<close>)
  and returns the empty list.
\<close>

theorem detectIngredientsFromImage_empty_text_counterexample:
  "detectIngredientsFromImage (Inr silent_response) = Inr []
   \<and> \<not> isl (detectIngredientsFromImage (Inr silent_response))"
  by (simp add: detectIngredientsFromImage_def silent_response_def or_default_def trim_def)

text \<open>
  C6, amended. If the service completes with an empty or absent text, the extractor
  returns the empty ingredient list and raises no error. It never fails on a response of
  the service: the only error it surfaces is the one of a rejected service call, passed
  on unchanged.
\<close>

theorem detectIngredientsFromImage_empty_text:
  "(\<forall>response :: GenerateContentResponse.
      response_text response = None \<or> response_text response = Some [] \<longrightarrow>
      detectIngredientsFromImage (Inr response) = Inr [])
   \<and> (\<forall>response. \<exists>ingredients. detectIngredientsFromImage (Inr response) = Inr ingredients)
   \<and> (\<forall>e. detectIngredientsFromImage (Inl e) = Inl e)"
  by (auto simp: detectIngredientsFromImage_def or_default_def trim_def)

theorem detectIngredientsFromImage_empty_text_witness:
  "response_text silent_response = Some []
   \<and> detectIngredientsFromImage (Inr silent_response) = Inr []
   \<and> detectIngredientsFromImage (Inl RequestRejected) = Inl RequestRejected"
proof -
  have empty: "response_text silent_response = Some []" by (simp add: silent_response_def)
  with detectIngredientsFromImage_empty_text
  have "detectIngredientsFromImage (Inr silent_response) = Inr []" by blast
  moreover from detectIngredientsFromImage_empty_text
  have "detectIngredientsFromImage (Inl RequestRejected) = Inl RequestRejected" by blast
  ultimately show ?thesis using empty by simp
qed


section \<open>The recipe generator\<close>

text \<open>The definitions a concrete text is evaluated with.\<close>

lemmas lexer_defs = js_def cu_def is_json_white_def is_digit_def hex_value_def hex4_def unescape_def
  digits_len_def scan_int_def scan_frac_def scan_exp_def scan_number_def

lemmas object_defs = decimal_value_def array_index_def define_property_def

lemma JSON_parse_empty_array: "JSON_parse (js ''[]'') = Some (JArray [])"
  by (simp add: JSON_parse_def lexer_defs)

lemma JSON_parse_empty_text: "JSON_parse [] = None"
  by (simp add: JSON_parse_def)

text \<open>
  C1 as stated asks for a failure when the text of the response is empty. The generator
  instead defaults the text to \<^verbatim>\<open>[]\<close> (\<^verbatim>\<open>response.text || "[]"\<close>), which parses,
  and returns the empty list.
\<close>

theorem generateRecipes_empty_text_counterexample:
  "generateRecipes (Inr silent_response) = Inr []
   \<and> generateRecipes (Inr silent_response) \<noteq> Inl SyntaxError"
  by (simp add: generateRecipes_def silent_response_def or_default_def JSON_parse_empty_array)

text \<open>
  C1, amended. For every response whose text is empty or absent, the generator returns
  the empty list of candidates and no error: the missing text is read as the empty array
  \<^verbatim>\<open>[]\<close>.
\<close>

theorem generateRecipes_empty_text:
  "response_text response = None \<or> response_text response = Some [] \<Longrightarrow>
   generateRecipes (Inr response) = Inr []"
  by (auto simp: generateRecipes_def or_default_def JSON_parse_empty_array)

theorem generateRecipes_empty_text_witness:
  "response_text silent_response = Some [] \<and> generateRecipes (Inr silent_response) = Inr []"
proof -
  have empty: "response_text silent_response = Some []" by (simp add: silent_response_def)
  then have "generateRecipes (Inr silent_response) = Inr []"
    by (intro generateRecipes_empty_text) simp
  with empty show ?thesis by simp
qed

text \<open>
  C2. For every response whose text is not empty and is not valid JSON, the generator
  fails: the \<^verbatim>\<open>SyntaxError\<close> of \<^verbatim>\<open>JSON.parse\<close> leaves the function (the spec's
  GenerationFailure), and no list of recipes is returned.
\<close>

theorem generateRecipes_malformed:
  "response_text response = Some text \<Longrightarrow> text \<noteq> [] \<Longrightarrow> JSON_parse text = None \<Longrightarrow>
   generateRecipes (Inr response) = Inl SyntaxError"
  by (simp add: generateRecipes_def or_default_def)

lemma JSON_parse_truncated:
  "JSON_parse (js ''[{\"title\":\"Soup\",\"calories\":120},{\"title\":\"Sal'') = None"
  by (simp add: JSON_parse_def lexer_defs object_defs)

theorem generateRecipes_malformed_witness:
  "response_text truncated_response = Some (js ''[{\"title\":\"Soup\",\"calories\":120},{\"title\":\"Sal'')
   \<and> js ''[{\"title\":\"Soup\",\"calories\":120},{\"title\":\"Sal'' \<noteq> []
   \<and> JSON_parse (js ''[{\"title\":\"Soup\",\"calories\":120},{\"title\":\"Sal'') = None
   \<and> generateRecipes (Inr truncated_response) = Inl SyntaxError"
proof -
  have given: "response_text truncated_response =
      Some (js ''[{\"title\":\"Soup\",\"calories\":120},{\"title\":\"Sal'')"
    by (simp add: truncated_response_def)
  have nonempty: "js ''[{\"title\":\"Soup\",\"calories\":120},{\"title\":\"Sal'' \<noteq> []"
    by simp
  from generateRecipes_malformed [OF given nonempty JSON_parse_truncated] given nonempty
    JSON_parse_truncated
  show ?thesis by simp
qed

text \<open>
  C3. If the text of the response is the literal \<^verbatim>\<open>[]\<close>, the generator returns the
  empty sequence of candidates, and no error.
\<close>

theorem generateRecipes_empty_array:
  "generateRecipes (Inr (response\<lparr>response_text := Some (js ''[]'')\<rparr>)) = Inr []"
  by (simp add: generateRecipes_def or_default_def JSON_parse_empty_array)

theorem generateRecipes_empty_array_witness:
  "generateRecipes (Inr \<lparr>response_text = Some (js ''[]''), candidates = None\<rparr>) = Inr []"
  using generateRecipes_empty_array [of silent_response] by (simp add: silent_response_def)

text \<open>Defining a property changes that property only, and keeps the order of the others.\<close>

lemma map_of_insert_indexed:
  "k \<notin> set (map fst ps) \<Longrightarrow>
   map_of (insert_indexed i k v ps) k' = (if k' = k then Some v else map_of ps k')"
  by (induction ps) (auto split: option.splits)

lemma filter_insert_indexed:
  "filter (\<lambda>(k', v'). k' \<noteq> k) (insert_indexed i k v ps) = filter (\<lambda>(k', v'). k' \<noteq> k) ps"
  by (induction ps) (auto split: option.splits if_splits)

lemma map_of_replace_other:
  "k' \<noteq> k \<Longrightarrow>
   map_of (map (\<lambda>(k', v'). if k' = k then (k', v) else (k', v')) ps) k' = map_of ps k'"
  by (induction ps) auto

lemma map_of_replace_same:
  "k \<in> set (map fst ps) \<Longrightarrow>
   map_of (map (\<lambda>(k', v'). if k' = k then (k', v) else (k', v')) ps) k = Some v"
  by (induction ps) auto

lemma filter_replace:
  "filter (\<lambda>(k', v'). k' \<noteq> k) (map (\<lambda>(k', v'). if k' = k then (k', v) else (k', v')) ps)
     = filter (\<lambda>(k', v'). k' \<noteq> k) ps"
  by (induction ps) auto

lemma map_of_define_property:
  "map_of (define_property ps k v) k' = (if k' = k then Some v else map_of ps k')"
proof (cases "k \<in> set (map fst ps)")
  case True
  then show ?thesis
    by (simp add: define_property_def map_of_replace_other map_of_replace_same)
next
  case False
  then have absent: "map_of ps k = None" by (simp add: map_of_eq_None_iff)
  show ?thesis
  proof (cases "array_index k")
    case None
    with False absent show ?thesis by (auto simp: define_property_def map_add_def split: option.splits)
  next
    case (Some i)
    with False show ?thesis by (simp add: define_property_def map_of_insert_indexed)
  qed
qed

lemma filter_define_property:
  "filter (\<lambda>(k', v'). k' \<noteq> k) (define_property ps k v) = filter (\<lambda>(k', v'). k' \<noteq> k) ps"
  by (simp add: define_property_def filter_replace filter_insert_indexed split: option.splits)
text \<open>
  Every value \<^verbatim>\<open>JSON.parse\<close> returns is well formed: each step of the parser keeps the
  invariant.
\<close>

lemma set_insert_indexed: "set (insert_indexed i k v ps) = insert (k, v) (set ps)"
  by (induction ps) (auto split: option.splits if_splits)

lemma distinct_insert_indexed:
  "k \<notin> set (map fst ps) \<Longrightarrow> distinct (map fst ps) \<Longrightarrow>
   distinct (map fst (insert_indexed i k v ps))"
  by (induction ps) (auto simp: set_insert_indexed image_iff split: option.splits if_splits)

lemma fst_replace:
  "map fst (map (\<lambda>(k', v'). if k' = k then (k', v) else (k', v')) ps) = map fst ps"
  by (induction ps) auto

lemma distinct_define_property:
  "distinct (map fst ps) \<Longrightarrow> distinct (map fst (define_property ps k v))"
proof (cases "k \<in> set (map fst ps)")
  case True
  assume "distinct (map fst ps)"
  with True show ?thesis by (simp only: define_property_def if_True fst_replace)
next
  case False
  assume "distinct (map fst ps)"
  with False show ?thesis
    by (cases "array_index k") (simp_all add: define_property_def distinct_insert_indexed)
qed

lemma values_define_property:
  "(k', v') \<in> set (define_property ps k v) \<Longrightarrow> v' = v \<or> (k', v') \<in> set ps"
  by (auto simp: define_property_def set_insert_indexed split: option.splits if_splits)

lemma deliver_ok:
  "deliver v st = Some (e', st') \<Longrightarrow> distinct_keys v \<Longrightarrow> \<forall>f \<in> set st. frame_ok f \<Longrightarrow>
   expect_ok e' \<and> (\<forall>f \<in> set st'. frame_ok f)"
  by (induction v st rule: deliver.induct)
     (force simp: distinct_define_property dest!: values_define_property)+

lemma value_token_ok:
  "value_token t st = Some (e', st') \<Longrightarrow> \<forall>f \<in> set st. frame_ok f \<Longrightarrow>
   expect_ok e' \<and> (\<forall>f \<in> set st'. frame_ok f)"
  by (cases t) (auto dest: deliver_ok)

lemma key_token_ok:
  "key_token t st = Some (e', st') \<Longrightarrow> \<forall>f \<in> set st. frame_ok f \<Longrightarrow>
   expect_ok e' \<and> (\<forall>f \<in> set st'. frame_ok f)"
  by (induction t st rule: key_token.induct) auto

lemma close_token_ok:
  "close_token t st = Some (e', st') \<Longrightarrow> \<forall>f \<in> set st. frame_ok f \<Longrightarrow>
   expect_ok e' \<and> (\<forall>f \<in> set st'. frame_ok f)"
  by (induction t st rule: close_token.induct) (auto dest: deliver_ok)

lemma step_ok:
  "step e st t = Some (e', st') \<Longrightarrow> \<forall>f \<in> set st. frame_ok f \<Longrightarrow>
   expect_ok e' \<and> (\<forall>f \<in> set st'. frame_ok f)"
  by (cases e)
     (auto dest: value_token_ok key_token_ok close_token_ok
           split: if_splits list.splits frame.splits option.splits)

lemma run_ok:
  "run e st ts = Some v \<Longrightarrow> expect_ok e \<Longrightarrow> \<forall>f \<in> set st. frame_ok f \<Longrightarrow> distinct_keys v"
proof (induction e st ts rule: run.induct)
  case (3 e st t ts)
  then obtain e' st' where next_state: "step e st t = Some (e', st')" and rest: "run e' st' ts = Some v"
    by (auto split: option.splits)
  from step_ok [OF next_state "3.prems"(3)] have "expect_ok e'" and "\<forall>f \<in> set st'. frame_ok f"
    by simp_all
  with "3.IH" next_state rest show ?case by simp
qed simp_all

lemma JSON_parse_distinct_keys: "JSON_parse text = Some v \<Longrightarrow> distinct_keys v"
  by (auto simp: JSON_parse_def split: option.splits dest: run_ok)

text \<open>The decimal text of an index is made of digits and denotes the index.\<close>

lemma unat_digit_unit: "d < 10 \<Longrightarrow> unat (digit_unit d) = 48 + d"
  unfolding digit_unit_def by (subst unat_of_nat) simp

lemma decimal_value_snoc: "decimal_value (ds @ [d]) = 10 * decimal_value ds + (unat d - 48)"
  by (simp add: decimal_value_def)

lemma decimal_value_decimal: "decimal_value (decimal n) = n"
proof (induction n rule: decimal.induct)
  case (1 n)
  show ?case
  proof (cases "n < 10")
    case True
    then show ?thesis
      by (subst decimal.simps) (simp add: decimal_value_def unat_digit_unit)
  next
    case False
    then have "decimal_value (decimal (n div 10)) = n div 10" by (rule "1.IH")
    with False show ?thesis
      by (subst decimal.simps) (simp add: decimal_value_snoc unat_digit_unit)
  qed
qed

lemma decimal_inj: "decimal m = decimal n \<Longrightarrow> m = n"
  by (metis decimal_value_decimal)

lemma decimal_digits: "list_all is_digit (decimal n)"
proof (induction n rule: decimal.induct)
  case (1 n)
  have digit: "is_digit (digit_unit d)" if "d < 10" for d
  proof -
    from that have "unat (digit_unit d) = 48 + d" by (rule unat_digit_unit)
    with that show ?thesis
      by (simp add: is_digit_def cu_def word_le_nat_alt)
  qed
  show ?case
  proof (cases "n < 10")
    case True
    then show ?thesis by (subst decimal.simps) (simp add: digit)
  next
    case False
    with "1.IH" show ?thesis by (subst decimal.simps) (simp add: digit)
  qed
qed

text \<open>
  The identifier is not an array index and differs from every index key, so on an element
  without an \<^verbatim>\<open>id\<close> it becomes the last property.
\<close>

lemma array_index_id: "array_index (js ''id'') = None"
  by (simp add: object_defs lexer_defs)

lemma id_not_decimal: "decimal j \<noteq> js ''id''"
proof
  assume "decimal j = js ''id''"
  with decimal_digits [of j] have "list_all is_digit (js ''id'')" by simp
  then show False by (simp add: lexer_defs)
qed

lemma define_property_id_new:
  "js ''id'' \<notin> set (map fst ps) \<Longrightarrow> define_property ps (js ''id'') v = ps @ [(js ''id'', v)]"
  by (simp add: define_property_def array_index_id)

lemma define_property_keys_old:
  "k \<in> set (map fst ps) \<Longrightarrow> map fst (define_property ps k v) = map fst ps"
  by (simp only: define_property_def if_True fst_replace)

lemma id_not_indexed:
  "js ''id'' \<notin> set (map fst (map (\<lambda>(j, x). (decimal j, f x)) (enumerate n xs)))"
proof
  assume "js ''id'' \<in> set (map fst (map (\<lambda>(j, x). (decimal j, f x)) (enumerate n xs)))"
  then obtain j where "js ''id'' = decimal j" by auto
  with id_not_decimal [of j] show False by simp
qed

text \<open>
  C4 as stated keeps every element of the array, apart from the identifier. The spread
  \<^verbatim>\<open>{ ...r, id }\<close> keeps the properties of an object only: the elements \<^verbatim>\<open>5\<close> and
  \<^verbatim>\<open>null\<close> both give the candidate that holds the identifier and nothing else, so the
  parsed element is not passed through.
\<close>

theorem generateRecipes_non_object_counterexample:
  "JSON_parse (or_default (response_text number_response) (js ''[]'')) = Some (JArray [JNumber (js ''5'')])
   \<and> JSON_parse (or_default (response_text null_response) (js ''[]'')) = Some (JArray [JNull])
   \<and> generateRecipes (Inr number_response) = Inr [JObject [(js ''id'', JString (js ''recipe-0''))]]
   \<and> generateRecipes (Inr null_response) = Inr [JObject [(js ''id'', JString (js ''recipe-0''))]]"
  by (simp add: generateRecipes_def number_response_def null_response_def or_default_def
      JSON_parse_def with_id_def decimal.simps digit_unit_def lexer_defs object_defs)

text \<open>
  C4, amended. When the text of the response parses to a JSON array of \<open>n\<close> elements, the
  generator returns exactly \<open>n\<close> candidates, in the order of the array, and the candidate
  at position \<open>i\<close> (from 0) is an object whose property \<^verbatim>\<open>id\<close> is exactly
  \<^verbatim>\<open>recipe-\<close> followed by the decimal text of \<open>i\<close>. Where the parsed element is an
  object, the candidate is otherwise that element unmodified: its other properties keep
  their values and their order, and the identifier takes the place of an \<^verbatim>\<open>id\<close> the
  element has already, or else comes after the last property. An element that is not an
  object is not passed through: beside the identifier the candidate holds the elements of
  an array or the code units of a string under their indices, and nothing for a number, a
  boolean or \<^verbatim>\<open>null\<close>.
\<close>

theorem generateRecipes_array_elements:
  "JSON_parse (or_default (response_text response) (js ''[]'')) = Some (JArray recipes) \<Longrightarrow>
   \<exists>candidates.
     generateRecipes (Inr response) = Inr candidates
   \<and> length candidates = length recipes
   \<and> (\<forall>i < length recipes. \<exists>props.
         candidates ! i = JObject props
       \<and> map_of props (js ''id'') = Some (JString (js ''recipe-'' @ decimal i))
       \<and> (\<forall>ps. recipes ! i = JObject ps \<longrightarrow>
             filter (\<lambda>(k, v). k \<noteq> js ''id'') props = filter (\<lambda>(k, v). k \<noteq> js ''id'') ps
           \<and> (js ''id'' \<in> set (map fst ps) \<longrightarrow> map fst props = map fst ps)
           \<and> (js ''id'' \<notin> set (map fst ps) \<longrightarrow>
                 props = ps @ [(js ''id'', JString (js ''recipe-'' @ decimal i))]))
       \<and> (\<forall>xs. recipes ! i = JArray xs \<longrightarrow>
             props = map (\<lambda>(j, x). (decimal j, x)) (enumerate 0 xs)
                     @ [(js ''id'', JString (js ''recipe-'' @ decimal i))])
       \<and> (\<forall>s. recipes ! i = JString s \<longrightarrow>
             props = map (\<lambda>(j, c). (decimal j, JString [c])) (enumerate 0 s)
                     @ [(js ''id'', JString (js ''recipe-'' @ decimal i))])
       \<and> (recipes ! i = JNull \<or> (\<exists>b. recipes ! i = JBool b) \<or> (\<exists>n. recipes ! i = JNumber n) \<longrightarrow>
             props = [(js ''id'', JString (js ''recipe-'' @ decimal i))]))"
proof -
  assume parsed: "JSON_parse (or_default (response_text response) (js ''[]'')) = Some (JArray recipes)"
  let ?candidates = "map (\<lambda>(idx, r). with_id idx r) (enumerate 0 recipes)"
  from parsed have result: "generateRecipes (Inr response) = Inr ?candidates"
    by (simp add: generateRecipes_def)
  have size: "length ?candidates = length recipes" by simp
  have each: "\<exists>props.
         ?candidates ! i = JObject props
       \<and> map_of props (js ''id'') = Some (JString (js ''recipe-'' @ decimal i))
       \<and> (\<forall>ps. recipes ! i = JObject ps \<longrightarrow>
             filter (\<lambda>(k, v). k \<noteq> js ''id'') props = filter (\<lambda>(k, v). k \<noteq> js ''id'') ps
           \<and> (js ''id'' \<in> set (map fst ps) \<longrightarrow> map fst props = map fst ps)
           \<and> (js ''id'' \<notin> set (map fst ps) \<longrightarrow>
                 props = ps @ [(js ''id'', JString (js ''recipe-'' @ decimal i))]))
       \<and> (\<forall>xs. recipes ! i = JArray xs \<longrightarrow>
             props = map (\<lambda>(j, x). (decimal j, x)) (enumerate 0 xs)
                     @ [(js ''id'', JString (js ''recipe-'' @ decimal i))])
       \<and> (\<forall>s. recipes ! i = JString s \<longrightarrow>
             props = map (\<lambda>(j, c). (decimal j, JString [c])) (enumerate 0 s)
                     @ [(js ''id'', JString (js ''recipe-'' @ decimal i))])
       \<and> (recipes ! i = JNull \<or> (\<exists>b. recipes ! i = JBool b) \<or> (\<exists>n. recipes ! i = JNumber n) \<longrightarrow>
             props = [(js ''id'', JString (js ''recipe-'' @ decimal i))])"
    if "i < length recipes" for i
  proof -
    let ?ident = "JString (js ''recipe-'' @ decimal i)"
    let ?props = "define_property (own_enumerable (recipes ! i)) (js ''id'') ?ident"
    from that have candidate: "?candidates ! i = JObject ?props"
      by (simp add: nth_enumerate_eq with_id_def)
    have ident: "map_of ?props (js ''id'') = Some ?ident"
      by (simp add: map_of_define_property)
    have object: "filter (\<lambda>(k, v). k \<noteq> js ''id'') ?props = filter (\<lambda>(k, v). k \<noteq> js ''id'') ps
           \<and> (js ''id'' \<in> set (map fst ps) \<longrightarrow> map fst ?props = map fst ps)
           \<and> (js ''id'' \<notin> set (map fst ps) \<longrightarrow> ?props = ps @ [(js ''id'', ?ident)])"
      if "recipes ! i = JObject ps" for ps
      using that
      by (simp add: filter_define_property define_property_keys_old define_property_id_new)
    have array: "?props = map (\<lambda>(j, x). (decimal j, x)) (enumerate 0 xs) @ [(js ''id'', ?ident)]"
      if "recipes ! i = JArray xs" for xs
      using that id_not_indexed [of "\<lambda>x. x" 0 xs]
      by (simp add: define_property_id_new)
    have string: "?props = map (\<lambda>(j, c). (decimal j, JString [c])) (enumerate 0 s) @ [(js ''id'', ?ident)]"
      if "recipes ! i = JString s" for s
      using that id_not_indexed [of "\<lambda>c. JString [c]" 0 s]
      by (simp add: define_property_id_new)
    have scalar: "?props = [(js ''id'', ?ident)]"
      if "recipes ! i = JNull \<or> (\<exists>b. recipes ! i = JBool b) \<or> (\<exists>n. recipes ! i = JNumber n)"
      using that by (auto simp: define_property_id_new)
    from candidate ident object array string scalar show ?thesis by blast
  qed
  from result size each show ?thesis by blast
qed

lemma JSON_parse_menu:
  "JSON_parse (or_default (response_text menu_response) (js ''[]'')) = Some (JArray menu)"
  by (simp add: menu_response_def menu_def or_default_def JSON_parse_def lexer_defs object_defs)

lemma generateRecipes_menu:
  "generateRecipes (Inr menu_response) =
     Inr [JObject [(js ''title'', JString (js ''Soup'')), (js ''calories'', JNumber (js ''120'')),
                   (js ''id'', JString (js ''recipe-0''))],
          JObject [(js ''title'', JString (js ''Salad'')), (js ''id'', JString (js ''recipe-1''))],
          JObject [(js ''id'', JString (js ''recipe-2'')), (js ''title'', JString (js ''Stew''))]]"
proof -
  have "generateRecipes (Inr menu_response) = Inr (map (\<lambda>(idx, r). with_id idx r) (enumerate 0 menu))"
    by (simp add: generateRecipes_def JSON_parse_menu)
  also have "map (\<lambda>(idx, r). with_id idx r) (enumerate 0 menu) =
       [JObject [(js ''title'', JString (js ''Soup'')), (js ''calories'', JNumber (js ''120'')),
                   (js ''id'', JString (js ''recipe-0''))],
          JObject [(js ''title'', JString (js ''Salad'')), (js ''id'', JString (js ''recipe-1''))],
          JObject [(js ''id'', JString (js ''recipe-2'')), (js ''title'', JString (js ''Stew''))]]"
    by (simp add: menu_def with_id_def decimal.simps digit_unit_def lexer_defs object_defs)
  finally show ?thesis .
qed

lemma JSON_parse_mixed:
  "JSON_parse (or_default (response_text mixed_response) (js ''[]'')) = Some (JArray mixed)"
  by (simp add: mixed_response_def mixed_def or_default_def JSON_parse_def lexer_defs object_defs)

lemma generateRecipes_mixed:
  "generateRecipes (Inr mixed_response) =
     Inr [JObject [(js ''title'', JString (js ''Soup'')), (js ''id'', JString (js ''recipe-0''))],
          JObject [(js ''0'', JString (js ''a'')), (js ''1'', JString (js ''b'')),
                   (js ''id'', JString (js ''recipe-1''))],
          JObject [(js ''0'', JBool True), (js ''1'', JNull), (js ''id'', JString (js ''recipe-2''))],
          JObject [(js ''id'', JString (js ''recipe-3''))]]"
proof -
  have "generateRecipes (Inr mixed_response) = Inr (map (\<lambda>(idx, r). with_id idx r) (enumerate 0 mixed))"
    by (simp add: generateRecipes_def JSON_parse_mixed)
  also have "map (\<lambda>(idx, r). with_id idx r) (enumerate 0 mixed) =
       [JObject [(js ''title'', JString (js ''Soup'')), (js ''id'', JString (js ''recipe-0''))],
          JObject [(js ''0'', JString (js ''a'')), (js ''1'', JString (js ''b'')),
                   (js ''id'', JString (js ''recipe-1''))],
          JObject [(js ''0'', JBool True), (js ''1'', JNull), (js ''id'', JString (js ''recipe-2''))],
          JObject [(js ''id'', JString (js ''recipe-3''))]]"
    by (simp add: mixed_def with_id_def decimal.simps digit_unit_def lexer_defs object_defs)
  finally show ?thesis .
qed

theorem generateRecipes_array_elements_witness:
  "JSON_parse (or_default (response_text menu_response) (js ''[]'')) = Some (JArray menu)
   \<and> length menu = 3
   \<and> generateRecipes (Inr menu_response) =
     Inr [JObject [(js ''title'', JString (js ''Soup'')), (js ''calories'', JNumber (js ''120'')),
                   (js ''id'', JString (js ''recipe-0''))],
          JObject [(js ''title'', JString (js ''Salad'')), (js ''id'', JString (js ''recipe-1''))],
          JObject [(js ''id'', JString (js ''recipe-2'')), (js ''title'', JString (js ''Stew''))]]
   \<and> JSON_parse (or_default (response_text mixed_response) (js ''[]'')) = Some (JArray mixed)
   \<and> length mixed = 4
   \<and> generateRecipes (Inr mixed_response) =
     Inr [JObject [(js ''title'', JString (js ''Soup'')), (js ''id'', JString (js ''recipe-0''))],
          JObject [(js ''0'', JString (js ''a'')), (js ''1'', JString (js ''b'')),
                   (js ''id'', JString (js ''recipe-1''))],
          JObject [(js ''0'', JBool True), (js ''1'', JNull), (js ''id'', JString (js ''recipe-2''))],
          JObject [(js ''id'', JString (js ''recipe-3''))]]"
proof -
  from generateRecipes_array_elements [OF JSON_parse_menu]
  obtain candidates where
    result: "generateRecipes (Inr menu_response) = Inr candidates" and
    size: "length candidates = length menu"
    by blast
  from generateRecipes_array_elements [OF JSON_parse_mixed]
  obtain others where
    result': "generateRecipes (Inr mixed_response) = Inr others" and
    size': "length others = length mixed"
    by blast
  have "length menu = 3" by (simp add: menu_def)
  moreover have "length mixed = 4" by (simp add: mixed_def)
  ultimately show ?thesis
    using result size result' size' JSON_parse_menu generateRecipes_menu
      JSON_parse_mixed generateRecipes_mixed
    by simp
qed


section \<open>The recipe illustrator\<close>

text \<open>The definitions a concrete title is encoded with.\<close>

lemmas uri_defs = js_def cu_def is_unreserved_def is_digit_def is_lead_def is_trail_def code_point_def
  utf8_def hex_digit_def percent_def escape_def

lemma encodeURIComponent_tomato:
  "encodeURIComponent (js ''Tomato Soup'') = Inr (js ''Tomato%20Soup'')"
  by (simp add: uri_defs)

lemma encodeURIComponent_examples:
  "encodeURIComponent (js ''Mac & Cheese (v2)!'') = Inr (js ''Mac%20%26%20Cheese%20(v2)!'')"
  "encodeURIComponent [0x43, 0x72, 0xE8, 0x6D, 0x65] = Inr (js ''Cr%C3%A8me'')"
  "encodeURIComponent [0x20AC] = Inr (js ''%E2%82%AC'')"
  "encodeURIComponent [0xD83C, 0xDF72] = Inr (js ''%F0%9F%8D%B2'')"
  "encodeURIComponent [0xD83C] = Inl URIError"
  "encodeURIComponent [0xDF72, 0xD83C] = Inl URIError"
  by (simp_all add: uri_defs)

text \<open>
  \<^verbatim>\<open>encodeURIComponent\<close> returns on the well-formed strings and raises on all others.
\<close>

lemma unreserved_ascii: "is_unreserved c \<Longrightarrow> c < 0x80"
  unfolding is_unreserved_def is_digit_def cu_def
  by (elim disjE conjE) (simp_all add: word_less_nat_alt word_le_nat_alt)

lemma unreserved_not_surrogate: "is_unreserved c \<Longrightarrow> \<not> is_lead c \<and> \<not> is_trail c"
proof -
  assume "is_unreserved c"
  then have "c < 0x80" by (rule unreserved_ascii)
  then show ?thesis
    by (simp add: is_lead_def is_trail_def word_less_nat_alt word_le_nat_alt)
qed

lemma encodeURIComponent_well_formed:
  "well_formed s \<Longrightarrow> \<exists>seed. encodeURIComponent s = Inr seed"
proof (induction s rule: encodeURIComponent.induct)
  case 1
  then show ?case by simp
next
  case (2 c cs)
  show ?case
  proof (cases "is_unreserved c")
    case True
    with "2.prems" have "well_formed cs" by (simp add: unreserved_not_surrogate)
    with True "2.IH"(1) obtain r where "encodeURIComponent cs = Inr r" by blast
    with True show ?thesis by simp
  next
    case False
    note reserved = this
    from "2.prems" have not_trail: "\<not> is_trail c" by (simp split: if_splits)
    show ?thesis
    proof (cases "is_lead c")
      case True
      with "2.prems" not_trail obtain d ds where cs: "cs = d # ds" and d: "is_trail d"
        and ds: "well_formed ds" by (auto split: list.splits)
      from "2.IH"(2) [OF reserved not_trail True cs d ds]
      obtain r where "encodeURIComponent ds = Inr r" by blast
      with reserved not_trail True cs d show ?thesis by simp
    next
      case False
      with "2.prems" not_trail have "well_formed cs" by simp
      from "2.IH"(3) [OF reserved not_trail False this]
      obtain r where "encodeURIComponent cs = Inr r" by blast
      with reserved not_trail False show ?thesis by simp
    qed
  qed
qed

lemma encodeURIComponent_malformed:
  "\<not> well_formed s \<Longrightarrow> encodeURIComponent s = Inl URIError"
proof (induction s rule: encodeURIComponent.induct)
  case 1
  then show ?case by simp
next
  case (2 c cs)
  show ?case
  proof (cases "is_unreserved c")
    case True
    then have "\<not> is_lead c" and "\<not> is_trail c" by (simp_all add: unreserved_not_surrogate)
    with "2.prems" have "\<not> well_formed cs" by simp
    with True "2.IH"(1) have "encodeURIComponent cs = Inl URIError" by blast
    with True show ?thesis by simp
  next
    case False
    note reserved = this
    show ?thesis
    proof (cases "is_trail c")
      case True
      with reserved show ?thesis by simp
    next
      case False
      note not_trail = this
      show ?thesis
      proof (cases "is_lead c")
        case True
        note lead = this
        show ?thesis
        proof (cases cs)
          case Nil
          with reserved not_trail lead show ?thesis by simp
        next
          case (Cons d ds)
          show ?thesis
          proof (cases "is_trail d")
            case True
            with "2.prems" not_trail lead Cons have "\<not> well_formed ds" by simp
            with "2.IH"(2) [OF reserved not_trail lead Cons True]
            have "encodeURIComponent ds = Inl URIError" by blast
            with reserved not_trail lead Cons True show ?thesis by simp
          next
            case False
            with reserved not_trail lead Cons show ?thesis by simp
          qed
        qed
      next
        case False
        with "2.prems" not_trail have "\<not> well_formed cs" by simp
        with "2.IH"(3) [OF reserved not_trail False]
        have "encodeURIComponent cs = Inl URIError" by blast
        with reserved not_trail False show ?thesis by simp
      qed
    qed
  qed
qed

text \<open>The loop finds the first part with inline data, if there is one.\<close>

lemma scan_parts_None: "scan_parts ps = None \<longleftrightarrow> (\<forall>q \<in> set ps. inlineData q = None)"
  by (induction ps) (auto split: option.splits)

lemma scan_parts_first:
  "\<forall>q \<in> set before. inlineData q = None \<Longrightarrow> inlineData part = Some blob \<Longrightarrow>
   scan_parts (before @ part # rest) = Some (js ''data:image/png;base64,'' @ template_string (data blob))"
  by (induction before) auto


text \<open>
  C10 as stated lets any candidate output of the response supply the image. The function
  reads the parts of the first candidate only (\<^verbatim>\<open>response.candidates?.[0]\<close>): with
  no inline data in the first candidate and a payload in the second, it returns the
  placeholder URL, not the data URI of that payload.
\<close>

theorem generateRecipeImage_second_candidate_counterexample:
  "generateRecipeImage (js ''Tomato Soup'') (Inr second_candidate_response)
     = Inr (js ''https://picsum.photos/seed/Tomato%20Soup/600/600'')
   \<and> generateRecipeImage (js ''Tomato Soup'') (Inr second_candidate_response)
     \<noteq> Inr (js ''data:image/png;base64,QUJD'')"
  by (simp add: generateRecipeImage_def second_candidate_response_def first_parts_def
      encodeURIComponent_tomato js_append)

text \<open>
  C10, amended. The illustrator scans the parts of the first candidate output only, in
  order. If the first of them that carries inline data has a payload, the result is exactly
  \<^verbatim>\<open>data:image/png;base64,\<close> followed by that payload. If no part of the first
  candidate carries inline data (or there is no candidate), then for every title that is
  a well-formed string the result is the placeholder URL
  \<^verbatim>\<open>https://picsum.photos/seed/<seed>/600/600\<close>, where the seed is the URL-encoded
  title: it depends on the title alone, and no error is raised.
\<close>

theorem generateRecipeImage_first_candidate:
  "(\<forall>before part rest blob payload.
      first_parts response = before @ part # rest
      \<and> (\<forall>q \<in> set before. inlineData q = None)
      \<and> inlineData part = Some blob \<and> data blob = Some payload \<longrightarrow>
      generateRecipeImage recipeTitle (Inr response) = Inr (js ''data:image/png;base64,'' @ payload))
   \<and> ((\<forall>q \<in> set (first_parts response). inlineData q = None) \<and> well_formed recipeTitle \<longrightarrow>
      (\<exists>seed. encodeURIComponent recipeTitle = Inr seed
         \<and> generateRecipeImage recipeTitle (Inr response)
             = Inr (js ''https://picsum.photos/seed/'' @ seed @ js ''/600/600'')))
   \<and> (\<forall>other.
        (\<forall>q \<in> set (first_parts response). inlineData q = None)
        \<and> (\<forall>q \<in> set (first_parts other). inlineData q = None) \<longrightarrow>
        generateRecipeImage recipeTitle (Inr other) = generateRecipeImage recipeTitle (Inr response))"
proof (intro conjI allI impI)
  fix before part rest blob payload
  assume found: "first_parts response = before @ part # rest
      \<and> (\<forall>q \<in> set before. inlineData q = None)
      \<and> inlineData part = Some blob \<and> data blob = Some payload"
  then have "scan_parts (first_parts response)
      = Some (js ''data:image/png;base64,'' @ template_string (data blob))"
    by (simp add: scan_parts_first)
  with found show "generateRecipeImage recipeTitle (Inr response)
      = Inr (js ''data:image/png;base64,'' @ payload)"
    by (simp add: generateRecipeImage_def template_string_def)
next
  assume none: "(\<forall>q \<in> set (first_parts response). inlineData q = None) \<and> well_formed recipeTitle"
  then have scanned: "scan_parts (first_parts response) = None" by (simp add: scan_parts_None)
  from none obtain seed where seed: "encodeURIComponent recipeTitle = Inr seed"
    using encodeURIComponent_well_formed by blast
  with scanned have "generateRecipeImage recipeTitle (Inr response)
      = Inr (js ''https://picsum.photos/seed/'' @ seed @ js ''/600/600'')"
    by (simp add: generateRecipeImage_def)
  with seed show "\<exists>seed. encodeURIComponent recipeTitle = Inr seed
         \<and> generateRecipeImage recipeTitle (Inr response)
             = Inr (js ''https://picsum.photos/seed/'' @ seed @ js ''/600/600'')"
    by blast
next
  fix other
  assume "(\<forall>q \<in> set (first_parts response). inlineData q = None)
        \<and> (\<forall>q \<in> set (first_parts other). inlineData q = None)"
  then have "scan_parts (first_parts response) = None" and "scan_parts (first_parts other) = None"
    by (simp_all add: scan_parts_None)
  then show "generateRecipeImage recipeTitle (Inr other) = generateRecipeImage recipeTitle (Inr response)"
    by (simp add: generateRecipeImage_def)
qed

lemma well_formed_tomato: "well_formed (js ''Tomato Soup'')"
  by (simp add: js_def cu_def is_lead_def is_trail_def)

theorem generateRecipeImage_first_candidate_witness:
  "generateRecipeImage (js ''Tomato Soup'') (Inr image_response) = Inr (js ''data:image/png;base64,QUJD'')
   \<and> well_formed (js ''Tomato Soup'')
   \<and> encodeURIComponent (js ''Tomato Soup'') = Inr (js ''Tomato%20Soup'')
   \<and> generateRecipeImage (js ''Tomato Soup'') (Inr no_image_response)
       = Inr (js ''https://picsum.photos/seed/Tomato%20Soup/600/600'')
   \<and> generateRecipeImage (js ''Tomato Soup'') (Inr silent_response)
       = generateRecipeImage (js ''Tomato Soup'') (Inr no_image_response)"
proof -
  let ?note = "\<lparr>part_text = Some (js ''Here it is''), inlineData = None\<rparr>"
  let ?blob = "\<lparr>data = Some (js ''QUJD''), mimeType = Some (js ''image/png'')\<rparr>"
  let ?image = "\<lparr>part_text = None, inlineData = Some ?blob\<rparr>"
  let ?other = "\<lparr>part_text = None,
      inlineData = Some \<lparr>data = Some (js ''REVG''), mimeType = Some (js ''image/png'')\<rparr>\<rparr>"
  have found: "first_parts image_response = [?note] @ ?image # [?other]
      \<and> (\<forall>q \<in> set [?note]. inlineData q = None)
      \<and> inlineData ?image = Some ?blob \<and> data ?blob = Some (js ''QUJD'')"
    by (simp add: image_response_def first_parts_def)
  with generateRecipeImage_first_candidate [of image_response "js ''Tomato Soup''"]
  have "generateRecipeImage (js ''Tomato Soup'') (Inr image_response)
      = Inr (js ''data:image/png;base64,'' @ js ''QUJD'')"
    by blast
  then have inline: "generateRecipeImage (js ''Tomato Soup'') (Inr image_response)
      = Inr (js ''data:image/png;base64,QUJD'')"
    by (simp add: js_append)
  have none: "(\<forall>q \<in> set (first_parts no_image_response). inlineData q = None)
      \<and> well_formed (js ''Tomato Soup'')"
    by (simp add: no_image_response_def first_parts_def well_formed_tomato)
  with generateRecipeImage_first_candidate [of no_image_response "js ''Tomato Soup''"]
  obtain seed where encoded: "encodeURIComponent (js ''Tomato Soup'') = Inr seed"
    and url: "generateRecipeImage (js ''Tomato Soup'') (Inr no_image_response)
        = Inr (js ''https://picsum.photos/seed/'' @ seed @ js ''/600/600'')"
    by blast
  from encoded have "seed = js ''Tomato%20Soup''" by (simp add: encodeURIComponent_tomato)
  with url have "generateRecipeImage (js ''Tomato Soup'') (Inr no_image_response)
      = Inr (js ''https://picsum.photos/seed/Tomato%20Soup/600/600'')"
    by (simp add: js_append)
  moreover have "(\<forall>q \<in> set (first_parts no_image_response). inlineData q = None)
      \<and> (\<forall>q \<in> set (first_parts silent_response). inlineData q = None)"
    by (simp add: no_image_response_def silent_response_def first_parts_def)
  with generateRecipeImage_first_candidate [of no_image_response "js ''Tomato Soup''"]
  have "generateRecipeImage (js ''Tomato Soup'') (Inr silent_response)
      = generateRecipeImage (js ''Tomato Soup'') (Inr no_image_response)"
    by blast
  ultimately show ?thesis
    using inline by (simp add: well_formed_tomato encodeURIComponent_tomato)
qed

text \<open>
  Outside the amended claim: a title with a lone surrogate makes
  \<^verbatim>\<open>encodeURIComponent\<close> raise, so the fallback path fails for it; inline data
  without a \<^verbatim>\<open>data\<close> field is rendered as the text \<^verbatim>\<open>undefined\<close>; a rejected
  service call is passed on.
\<close>

lemma generateRecipeImage_lone_surrogate:
  "generateRecipeImage [0xD83C] (Inr no_image_response) = Inl URIError"
  by (simp add: generateRecipeImage_def no_image_response_def first_parts_def
      is_unreserved_def is_digit_def is_lead_def is_trail_def cu_def)

lemma generateRecipeImage_no_data:
  "generateRecipeImage (js ''Tomato Soup'')
     (Inr \<lparr>response_text = None,
           candidates = Some [\<lparr>content = Some \<lparr>parts = Some
             [\<lparr>part_text = None, inlineData = Some \<lparr>data = None, mimeType = None\<rparr>\<rparr>]\<rparr>\<rparr>]\<rparr>)
   = Inr (js ''data:image/png;base64,undefined'')"
  by (simp add: generateRecipeImage_def first_parts_def template_string_def js_def)

lemma generateRecipeImage_rejected: "generateRecipeImage recipeTitle (Inl e) = Inl e"
  by (simp add: generateRecipeImage_def)

end
